theory Spec2Isabelle
  imports Main "HOL-Library.Word"
begin

section \<open>Container creation in the CRI shim: \<^verbatim>\<open>cri/container_create.go\<close>\<close>

subsection \<open>Constants of the package\<close>

definition userContainerName :: string where
  "userContainerName = ''user-container''"

definition queueProxyName :: string where
  "queueProxyName = ''queue-proxy''"

definition revisionEnv :: string where
  "revisionEnv = ''K_REVISION''"

definition guestIPEnv :: string where
  "guestIPEnv = ''GUEST_ADDR''"

definition guestPortEnv :: string where
  "guestPortEnv = ''GUEST_PORT''"

definition guestImageEnv :: string where
  "guestImageEnv = ''GUEST_IMAGE''"

definition guestMemorySizeMibEnv :: string where
  "guestMemorySizeMibEnv = ''GUEST_MEM_SIZE_MIB''"

definition defaultMemorySizeMib :: int where
  "defaultMemorySizeMib = 256"

definition guestvCPUCount :: string where
  "guestvCPUCount = ''GUEST_VCPU_COUNT''"

definition defaultvCPUCount :: int where
  "defaultvCPUCount = 1"

definition guestPortValue :: string where
  "guestPortValue = ''50051''"

subsection \<open>Errors\<close>

text \<open>
  Go's \<^verbatim>\<open>error\<close> values that the file can produce or pass on: \<^verbatim>\<open>errors.New(msg)\<close> is
  \<open>ErrorString msg\<close>; the \<^verbatim>\<open>*strconv.NumError{Func, Num, Err}\<close> of a failed conversion is
  \<open>NumError func num kind\<close>. The errors of the two collaborators are arbitrary values
  of the same type.
\<close>

datatype num_error_kind = ErrSyntax | ErrRange

datatype error = ErrorString string | NumError string string num_error_kind

subsection \<open>The part of \<^verbatim>\<open>strconv\<close> that the file calls\<close>

text \<open>
  \<^verbatim>\<open>strconv.Atoi(s)\<close> of the Go standard library is \<^verbatim>\<open>ParseInt(s, 10, 0)\<close> with the
  function name of the error replaced (its fast path for short strings computes the same
  result). \<^verbatim>\<open>int\<close> has 64 bits on the platforms the shim runs on, so the bit size 0 stands
  for 64. In base 10 no underscore is accepted.

  \<^verbatim>\<open>ParseUint\<close>'s loop reads the bytes left to right with the accumulator \<open>n\<close>: a byte
  that is no decimal digit is a syntax error; an accumulator that leaves the 64 bits is a
  range error (the first of the two that the scan meets wins).
\<close>

definition is_digit :: "char \<Rightarrow> bool" where
  "is_digit c = (of_char (CHR ''0'') \<le> (of_char c :: nat) \<and> (of_char c :: nat) \<le> of_char (CHR ''9''))"

definition digit_val :: "char \<Rightarrow> nat" where
  "digit_val c = of_char c - of_char (CHR ''0'')"

definition maxUint64 :: nat where
  "maxUint64 = 2 ^ 64 - 1"

fun ParseUint_loop :: "nat \<Rightarrow> string \<Rightarrow> num_error_kind + nat" where
  "ParseUint_loop n [] = Inr n"
| "ParseUint_loop n (c # cs) =
     (if \<not> is_digit c then Inl ErrSyntax
      else if n \<ge> maxUint64 div 10 + 1 then Inl ErrRange
      else if n * 10 + digit_val c > maxUint64 then Inl ErrRange
      else ParseUint_loop (n * 10 + digit_val c) cs)"

definition ParseUint :: "string \<Rightarrow> num_error_kind + nat" where
  "ParseUint s = (if s = [] then Inl ErrSyntax else ParseUint_loop 0 s)"

definition ParseInt :: "string \<Rightarrow> num_error_kind + int" where
  "ParseInt s =
     (case s of
        [] \<Rightarrow> Inl ErrSyntax
      | c # cs \<Rightarrow>
          (let neg = (c = CHR ''-'');
               body = (if c = CHR ''+'' \<or> c = CHR ''-'' then cs else s)
           in case ParseUint body of
                Inl ErrSyntax \<Rightarrow> Inl ErrSyntax
              | Inl ErrRange \<Rightarrow> Inl ErrRange
              | Inr un \<Rightarrow>
                  if \<not> neg \<and> un \<ge> 2 ^ 63 then Inl ErrRange
                  else if neg \<and> un > 2 ^ 63 then Inl ErrRange
                  else Inr (if neg then - int un else int un)))"

definition Atoi :: "string \<Rightarrow> error + int" where
  "Atoi s = (case ParseInt s of Inl k \<Rightarrow> Inl (NumError ''Atoi'' s k) | Inr n \<Rightarrow> Inr n)"

text \<open>The conversion \<^verbatim>\<open>uint32(n)\<close> of an \<^verbatim>\<open>int\<close>: the low 32 bits.\<close>

definition uint32 :: "int \<Rightarrow> 32 word" where
  "uint32 n = word_of_int n"

subsection \<open>Requests and responses of the CRI API\<close>

record KeyValue =
  Key :: string
  Value :: string

record ContainerMetadata =
  Name :: string

record ContainerConfig =
  Metadata :: ContainerMetadata
  Envs :: "KeyValue list"

record CreateContainerRequest =
  PodSandboxId :: string
  Config :: ContainerConfig

record CreateContainerResponse =
  ContainerId :: string

subsection \<open>Extraction of the launch parameters\<close>

text \<open>
  Each of the four functions scans \<^verbatim>\<open>config.GetEnvs()\<close> from the front and returns at the
  first entry whose key matches.
\<close>

fun getGuestImage_scan :: "KeyValue list \<Rightarrow> error + string" where
  "getGuestImage_scan [] =
     Inl (ErrorString ''failed to provide non empty guest image in user container config'')"
| "getGuestImage_scan (kv # envs) =
     (if Key kv = guestImageEnv then Inr (Value kv) else getGuestImage_scan envs)"

definition getGuestImage :: "ContainerConfig \<Rightarrow> error + string" where
  "getGuestImage config = getGuestImage_scan (Envs config)"

fun getRevisionId_scan :: "KeyValue list \<Rightarrow> error + string" where
  "getRevisionId_scan [] =
     Inl (ErrorString ''failed to provide non empty guest image in user container config'')"
| "getRevisionId_scan (kv # envs) =
     (if Key kv = revisionEnv then Inr (Value kv) else getRevisionId_scan envs)"

definition getRevisionId :: "ContainerConfig \<Rightarrow> error + string" where
  "getRevisionId config = getRevisionId_scan (Envs config)"

fun getMemorySize_scan :: "KeyValue list \<Rightarrow> error + 32 word" where
  "getMemorySize_scan [] = Inr (uint32 defaultMemorySizeMib)"
| "getMemorySize_scan (kv # envs) =
     (if Key kv = guestMemorySizeMibEnv then
        (case Atoi (Value kv) of
           Inr memSize \<Rightarrow> Inr (uint32 memSize)
         | Inl err \<Rightarrow> Inl err)
      else getMemorySize_scan envs)"

definition getMemorySize :: "ContainerConfig \<Rightarrow> error + 32 word" where
  "getMemorySize config = getMemorySize_scan (Envs config)"

fun getvCPUCount_scan :: "KeyValue list \<Rightarrow> error + 32 word" where
  "getvCPUCount_scan [] = Inr (uint32 defaultvCPUCount)"
| "getvCPUCount_scan (kv # envs) =
     (if Key kv = guestvCPUCount then
        (case Atoi (Value kv) of
           Inr vCPUCount \<Rightarrow> Inr (uint32 vCPUCount)
         | Inl err \<Rightarrow> Inl err)
      else getvCPUCount_scan envs)"

definition getvCPUCount :: "ContainerConfig \<Rightarrow> error + 32 word" where
  "getvCPUCount config = getvCPUCount_scan (Envs config)"

text \<open>
  \<open>launchParameters\<close> names the four extractions of \<^verbatim>\<open>createUserContainer\<close> (lines 85 to
  107) taken together, in the order in which the function performs them: the error of
  the first one that fails, or the four values.
\<close>

definition launchParameters ::
    "ContainerConfig \<Rightarrow> error + (string \<times> string \<times> 32 word \<times> 32 word)" where
  "launchParameters config =
     (case getGuestImage config of
        Inl err \<Rightarrow> Inl err
      | Inr guestImage \<Rightarrow>
     (case getRevisionId config of
        Inl err \<Rightarrow> Inl err
      | Inr revision \<Rightarrow>
     (case getMemorySize config of
        Inl err \<Rightarrow> Inl err
      | Inr memSizeMib \<Rightarrow>
     (case getvCPUCount config of
        Inl err \<Rightarrow> Inl err
      | Inr vCPUCount \<Rightarrow> Inr (guestImage, revision, memSizeMib, vCPUCount)))))"

subsection \<open>The service: its collaborators, its two stores and the calls it makes\<close>

text \<open>
  Modelled from the spec: the declarations of \<^verbatim>\<open>VMConfig\<close> and of the VM instance
  (\<^verbatim>\<open>funcInstance\<close>) are not among the sources. The fields are those that
  \<^verbatim>\<open>container_create.go\<close> reads and writes (\<^verbatim>\<open>vmConfig.guestIP\<close>, \<^verbatim>\<open>vmConfig.guestPort\<close>,
  \<^verbatim>\<open>funcInst.startVMResponse.GuestIP\<close>); \<open>vmID\<close> stands for the opaque handle of the
  instance.
\<close>

record VMConfig =
  guestIP :: string
  guestPort :: string

record StartVMResponse =
  GuestIP :: string

record funcInstance =
  startVMResponse :: StartVMResponse
  vmID :: string

text \<open>
  The calls that container creation makes, in program order. \<open>GoStockCreateContainer r\<close>
  is the start of the goroutine of lines 77 to 80, whose body calls the stock runtime
  client with \<open>r\<close>; \<open>AwaitStockDone\<close> is the receive \<^verbatim>\<open><-stockDone\<close> of line 121, the only
  point at which the result of that goroutine becomes available to the function.
  \<open>StockCreateContainer r\<close> is a call of the stock runtime client on the calling thread.
\<close>

datatype call =
    GoStockCreateContainer CreateContainerRequest
  | StockCreateContainer CreateContainerRequest
  | StartVM string string "32 word" "32 word"
  | InsertPodVMConfig string VMConfig
  | AwaitStockDone
  | InsertActive string funcInstance
  | GetPodVMConfig string
  | RemovePodVMConfig string

text \<open>
  The state of the service. \<open>stockRuntimeClient\<close> and \<open>startVM\<close> are the two external
  collaborators (\<^verbatim>\<open>s.stockRuntimeClient.CreateContainer\<close> and \<^verbatim>\<open>s.coordinator.startVM\<close>):
  any functions from their arguments to an error or a result. \<open>podVMConfigs\<close> is the Pod
  VM Config Store, \<open>activeInstances\<close> the Active VM Registry of the coordinator, and
  \<open>calls\<close> the log of the calls made so far.
\<close>

record Service =
  stockRuntimeClient :: "CreateContainerRequest \<Rightarrow> error + CreateContainerResponse"
  startVM :: "string \<Rightarrow> string \<Rightarrow> 32 word \<Rightarrow> 32 word \<Rightarrow> error + funcInstance"
  podVMConfigs :: "string \<rightharpoonup> VMConfig"
  activeInstances :: "string \<rightharpoonup> funcInstance"
  calls :: "call list"

definition record_call :: "call \<Rightarrow> Service \<Rightarrow> Service" where
  "record_call c s = s\<lparr>calls := calls s @ [c]\<rparr>"

text \<open>
  Modelled from the spec: \<^verbatim>\<open>insertPodVMConfig\<close>, \<^verbatim>\<open>getPodVMConfig\<close> and
  \<^verbatim>\<open>removePodVMConfig\<close> of the service are not among the sources. Section 4.2 of the
  specification: put inserts or overwrites; remove is an idempotent delete; the lookup
  of the sidecar path fails with a "no VM configuration available" error when the entry
  is absent.
\<close>

definition errNoVMConfig :: error where
  "errNoVMConfig = ErrorString ''no VM configuration available''"

definition insertPodVMConfig :: "string \<Rightarrow> VMConfig \<Rightarrow> Service \<Rightarrow> Service" where
  "insertPodVMConfig podID vmConfig s = s\<lparr>podVMConfigs := (podVMConfigs s)(podID \<mapsto> vmConfig)\<rparr>"

definition getPodVMConfig :: "string \<Rightarrow> Service \<Rightarrow> error + VMConfig" where
  "getPodVMConfig podID s =
     (case podVMConfigs s podID of
        None \<Rightarrow> Inl errNoVMConfig
      | Some vmConfig \<Rightarrow> Inr vmConfig)"

definition removePodVMConfig :: "string \<Rightarrow> Service \<Rightarrow> Service" where
  "removePodVMConfig podID s = s\<lparr>podVMConfigs := (podVMConfigs s)(podID := None)\<rparr>"

text \<open>
  Modelled from the spec: \<^verbatim>\<open>insertActive\<close> of the coordinator is not among the sources.
  Section 4.3 of the specification: the insert fails if the container identifier is
  already present (the duplicate-key error), and stores the pair otherwise.
\<close>

definition errDuplicateActive :: error where
  "errDuplicateActive = ErrorString ''duplicate key in the active VM registry''"

definition insertActive :: "string \<Rightarrow> funcInstance \<Rightarrow> Service \<Rightarrow> error + Service" where
  "insertActive containerID fi s =
     (case activeInstances s containerID of
        Some present \<Rightarrow> Inl errDuplicateActive
      | None \<Rightarrow> Inr (s\<lparr>activeInstances := (activeInstances s)(containerID \<mapsto> fi)\<rparr>))"

subsection \<open>The three creation paths\<close>

text \<open>
  \<^verbatim>\<open>createUserContainer\<close>, statement by statement. Every function returns the pair of Go
  (\<open>Inl\<close> for a non-nil error) and the state of the service after the call.
\<close>

definition createUserContainer ::
    "Service \<Rightarrow> CreateContainerRequest \<Rightarrow> (error + CreateContainerResponse) \<times> Service" where
  "createUserContainer s r =
     (let s1 = record_call (GoStockCreateContainer r) s;
          config = Config r
      in case getGuestImage config of
           Inl err \<Rightarrow> (Inl err, s1)
         | Inr guestImage \<Rightarrow>
      (case getRevisionId config of
           Inl err \<Rightarrow> (Inl err, s1)
         | Inr revision \<Rightarrow>
      (case getMemorySize config of
           Inl err \<Rightarrow> (Inl err, s1)
         | Inr memSizeMib \<Rightarrow>
      (case getvCPUCount config of
           Inl err \<Rightarrow> (Inl err, s1)
         | Inr vCPUCount \<Rightarrow>
      (let s2 = record_call (StartVM guestImage revision memSizeMib vCPUCount) s1
       in case startVM s guestImage revision memSizeMib vCPUCount of
            Inl err \<Rightarrow> (Inl err, s2)
          | Inr funcInst \<Rightarrow>
       (let vmConfig = \<lparr>guestIP = GuestIP (startVMResponse funcInst), guestPort = guestPortValue\<rparr>;
            s3 = record_call (InsertPodVMConfig (PodSandboxId r) vmConfig)
                   (insertPodVMConfig (PodSandboxId r) vmConfig s2);
            s4 = record_call AwaitStockDone s3
        in case stockRuntimeClient s r of
             Inl stockErr \<Rightarrow> (Inl stockErr, s4)
           | Inr stockResp \<Rightarrow>
        (let containerdID = ContainerId stockResp;
             s5 = record_call (InsertActive containerdID funcInst) s4
         in case insertActive containerdID funcInst s5 of
              Inl err \<Rightarrow> (Inl err, s5)
            | Inr s6 \<Rightarrow> (Inr stockResp, s6))))))))"

definition createQueueProxy ::
    "Service \<Rightarrow> CreateContainerRequest \<Rightarrow> (error + CreateContainerResponse) \<times> Service" where
  "createQueueProxy s r =
     (let s1 = record_call (GetPodVMConfig (PodSandboxId r)) s
      in case getPodVMConfig (PodSandboxId r) s1 of
           Inl err \<Rightarrow> (Inl err, s1)
         | Inr vmConfig \<Rightarrow>
      (let s2 = record_call (RemovePodVMConfig (PodSandboxId r))
                  (removePodVMConfig (PodSandboxId r) s1);
           guestIPKeyVal = \<lparr>Key = guestIPEnv, Value = guestIP vmConfig\<rparr>;
           guestPortKeyVal = \<lparr>Key = guestPortEnv, Value = guestPort vmConfig\<rparr>;
           r' = r\<lparr>Config := (Config r)\<lparr>Envs := Envs (Config r) @ [guestIPKeyVal, guestPortKeyVal]\<rparr>\<rparr>;
           s3 = record_call (StockCreateContainer r') s2
       in case stockRuntimeClient s r' of
            Inl err \<Rightarrow> (Inl err, s3)
          | Inr resp \<Rightarrow> (Inr resp, s3)))"

text \<open>
  The request that \<^verbatim>\<open>createQueueProxy\<close> hands to the stock runtime client (lines 148 to
  150): the incoming request with the guest address and the guest port appended to its
  environment entries.
\<close>

definition forwarded :: "CreateContainerRequest \<Rightarrow> VMConfig \<Rightarrow> CreateContainerRequest" where
  "forwarded r vmConfig =
     r\<lparr>Config := (Config r)\<lparr>Envs := Envs (Config r) @
        [\<lparr>Key = guestIPEnv, Value = guestIP vmConfig\<rparr>,
         \<lparr>Key = guestPortEnv, Value = guestPort vmConfig\<rparr>]\<rparr>\<rparr>"

definition CreateContainer ::
    "Service \<Rightarrow> CreateContainerRequest \<Rightarrow> (error + CreateContainerResponse) \<times> Service" where
  "CreateContainer s r =
     (let config = Config r;
          containerName = Name (Metadata config)
      in if containerName = userContainerName then createUserContainer s r
         else if containerName = queueProxyName then createQueueProxy s r
         else (stockRuntimeClient s r, record_call (StockCreateContainer r) s))"

text \<open>The calls that a run adds to the log of the service.\<close>

definition new_calls :: "Service \<Rightarrow> Service \<Rightarrow> call list" where
  "new_calls s s' = drop (length (calls s)) (calls s')"

subsection \<open>Test doubles and sample requests\<close>

definition stock_ok :: "CreateContainerRequest \<Rightarrow> error + CreateContainerResponse" where
  "stock_ok r = Inr \<lparr>ContainerId = ''ctr-'' @ PodSandboxId r\<rparr>"

definition stock_fail :: "CreateContainerRequest \<Rightarrow> error + CreateContainerResponse" where
  "stock_fail r = Inl (ErrorString ''stock runtime failed'')"

definition vm_ok :: "string \<Rightarrow> string \<Rightarrow> 32 word \<Rightarrow> 32 word \<Rightarrow> error + funcInstance" where
  "vm_ok guestImage revision memSizeMib vCPUCount =
     Inr \<lparr>startVMResponse = \<lparr>GuestIP = ''172.16.0.2''\<rparr>, vmID = revision\<rparr>"

definition vm_fail :: "string \<Rightarrow> string \<Rightarrow> 32 word \<Rightarrow> 32 word \<Rightarrow> error + funcInstance" where
  "vm_fail guestImage revision memSizeMib vCPUCount = Inl (ErrorString ''VM boot failed'')"

definition fresh_service ::
    "(CreateContainerRequest \<Rightarrow> error + CreateContainerResponse) \<Rightarrow>
     (string \<Rightarrow> string \<Rightarrow> 32 word \<Rightarrow> 32 word \<Rightarrow> error + funcInstance) \<Rightarrow> Service" where
  "fresh_service stock vm =
     \<lparr>stockRuntimeClient = stock, startVM = vm, podVMConfigs = Map.empty,
      activeInstances = Map.empty, calls = []\<rparr>"

definition request_named :: "string \<Rightarrow> KeyValue list \<Rightarrow> CreateContainerRequest" where
  "request_named name envs =
     \<lparr>PodSandboxId = ''pod-1'', Config = \<lparr>Metadata = \<lparr>Name = name\<rparr>, Envs = envs\<rparr>\<rparr>"

definition sample_envs :: "KeyValue list" where
  "sample_envs = [\<lparr>Key = guestImageEnv, Value = ''fn:v1''\<rparr>, \<lparr>Key = revisionEnv, Value = ''rev-7''\<rparr>]"

definition sample_vm :: funcInstance where
  "sample_vm = \<lparr>startVMResponse = \<lparr>GuestIP = ''172.16.0.2''\<rparr>, vmID = ''rev-7''\<rparr>"

definition sample_vmConfig :: VMConfig where
  "sample_vmConfig = \<lparr>guestIP = ''172.16.0.2'', guestPort = ''50051''\<rparr>"

text \<open>A service in which one container identifier is already registered.\<close>

definition registered_service :: Service where
  "registered_service =
     (fresh_service stock_ok vm_ok)\<lparr>activeInstances := [''ctr-pod-1'' \<mapsto> sample_vm]\<rparr>"

text \<open>A service whose Pod VM Config Store holds the entry of the sample pod.\<close>

definition published_service ::
    "(CreateContainerRequest \<Rightarrow> error + CreateContainerResponse) \<Rightarrow> Service" where
  "published_service stock =
     (fresh_service stock vm_ok)\<lparr>podVMConfigs := [''pod-1'' \<mapsto> sample_vmConfig]\<rparr>"

text \<open>Environment entries in which the image reference is present and empty.\<close>

definition empty_image_envs :: "KeyValue list" where
  "empty_image_envs = [\<lparr>Key = guestImageEnv, Value = ''''\<rparr>, \<lparr>Key = revisionEnv, Value = ''rev-7''\<rparr>]"

text \<open>A VM supervisor that refuses to boot an empty image reference.\<close>

definition vm_needs_image ::
    "string \<Rightarrow> string \<Rightarrow> 32 word \<Rightarrow> 32 word \<Rightarrow> error + funcInstance" where
  "vm_needs_image guestImage revision memSizeMib vCPUCount =
     (if guestImage = [] then Inl (ErrorString ''no guest image'')
      else Inr \<lparr>startVMResponse = \<lparr>GuestIP = ''172.16.0.2''\<rparr>, vmID = revision\<rparr>)"

section \<open>Properties\<close>

subsection \<open>Dispatch by container name\<close>

lemma names_distinct: "userContainerName \<noteq> queueProxyName"
  by (simp add: userContainerName_def queueProxyName_def)

lemma CreateContainer_user:
  "Name (Metadata (Config r)) = userContainerName \<Longrightarrow> CreateContainer s r = createUserContainer s r"
  by (simp add: CreateContainer_def)

lemma CreateContainer_queue:
  "Name (Metadata (Config r)) = queueProxyName \<Longrightarrow> CreateContainer s r = createQueueProxy s r"
  using names_distinct by (simp add: CreateContainer_def)

subsection \<open>The extraction functions\<close>

lemma find_None_key: "find (\<lambda>kv. Key kv = k) envs = None \<longleftrightarrow> k \<notin> Key ` set envs"
  by (induction envs) auto

lemma getGuestImage_scan_find:
  "getGuestImage_scan envs =
     (case find (\<lambda>kv. Key kv = guestImageEnv) envs of
        None \<Rightarrow> Inl (ErrorString ''failed to provide non empty guest image in user container config'')
      | Some kv \<Rightarrow> Inr (Value kv))"
  by (induction envs) simp_all

lemma getRevisionId_scan_find:
  "getRevisionId_scan envs =
     (case find (\<lambda>kv. Key kv = revisionEnv) envs of
        None \<Rightarrow> Inl (ErrorString ''failed to provide non empty guest image in user container config'')
      | Some kv \<Rightarrow> Inr (Value kv))"
  by (induction envs) simp_all

lemma getGuestImage_Inl:
  "getGuestImage c = Inl e \<longleftrightarrow>
     guestImageEnv \<notin> Key ` set (Envs c) \<and>
     e = ErrorString ''failed to provide non empty guest image in user container config''"
  by (auto simp: getGuestImage_def getGuestImage_scan_find find_None_key [symmetric]
      split: option.splits)

lemma getRevisionId_Inl:
  "getRevisionId c = Inl e \<longleftrightarrow>
     revisionEnv \<notin> Key ` set (Envs c) \<and>
     e = ErrorString ''failed to provide non empty guest image in user container config''"
  by (auto simp: getRevisionId_def getRevisionId_scan_find find_None_key [symmetric]
      split: option.splits)

lemma launchParameters_Inl:
  "launchParameters c = Inl e \<longleftrightarrow>
     getGuestImage c = Inl e \<or>
     (\<exists>i. getGuestImage c = Inr i) \<and> getRevisionId c = Inl e \<or>
     (\<exists>i v. getGuestImage c = Inr i \<and> getRevisionId c = Inr v) \<and> getMemorySize c = Inl e \<or>
     (\<exists>i v m. getGuestImage c = Inr i \<and> getRevisionId c = Inr v \<and> getMemorySize c = Inr m) \<and>
        getvCPUCount c = Inl e"
  by (auto simp: launchParameters_def split: sum.splits)

lemma launchParameters_Inr:
  "launchParameters c = Inr (i, v, m, n) \<longleftrightarrow>
     getGuestImage c = Inr i \<and> getRevisionId c = Inr v \<and> getMemorySize c = Inr m \<and>
     getvCPUCount c = Inr n"
  by (auto simp: launchParameters_def split: sum.splits)

subsection \<open>The runs of the workload path, case by case\<close>

lemma createUserContainer_extract_fails:
  assumes "launchParameters (Config r) = Inl e"
  shows "createUserContainer s r = (Inl e, s\<lparr>calls := calls s @ [GoStockCreateContainer r]\<rparr>)"
  using assms
  by (auto simp: launchParameters_def createUserContainer_def record_call_def Let_def
      split: sum.splits)

lemma createUserContainer_vm_fails:
  assumes "launchParameters (Config r) = Inr (i, v, m, n)" and "startVM s i v m n = Inl e"
  shows "createUserContainer s r =
    (Inl e, s\<lparr>calls := calls s @ [GoStockCreateContainer r, StartVM i v m n]\<rparr>)"
  using assms
  by (simp add: launchParameters_Inr createUserContainer_def record_call_def Let_def)

lemma createUserContainer_stock_fails:
  assumes "launchParameters (Config r) = Inr (i, v, m, n)" and "startVM s i v m n = Inr fi"
    and "stockRuntimeClient s r = Inl e"
  shows "createUserContainer s r =
    (Inl e, s\<lparr>podVMConfigs := (podVMConfigs s)(PodSandboxId r \<mapsto>
                \<lparr>guestIP = GuestIP (startVMResponse fi), guestPort = guestPortValue\<rparr>),
              calls := calls s @ [GoStockCreateContainer r, StartVM i v m n,
                InsertPodVMConfig (PodSandboxId r)
                  \<lparr>guestIP = GuestIP (startVMResponse fi), guestPort = guestPortValue\<rparr>,
                AwaitStockDone]\<rparr>)"
  using assms
  by (simp add: launchParameters_Inr createUserContainer_def record_call_def Let_def
      insertPodVMConfig_def)

lemma createUserContainer_duplicate:
  assumes "launchParameters (Config r) = Inr (i, v, m, n)" and "startVM s i v m n = Inr fi"
    and "stockRuntimeClient s r = Inr resp" and "activeInstances s (ContainerId resp) = Some old"
  shows "createUserContainer s r =
    (Inl errDuplicateActive,
     s\<lparr>podVMConfigs := (podVMConfigs s)(PodSandboxId r \<mapsto>
                \<lparr>guestIP = GuestIP (startVMResponse fi), guestPort = guestPortValue\<rparr>),
       calls := calls s @ [GoStockCreateContainer r, StartVM i v m n,
                InsertPodVMConfig (PodSandboxId r)
                  \<lparr>guestIP = GuestIP (startVMResponse fi), guestPort = guestPortValue\<rparr>,
                AwaitStockDone, InsertActive (ContainerId resp) fi]\<rparr>)"
  using assms
  by (simp add: launchParameters_Inr createUserContainer_def record_call_def Let_def
      insertPodVMConfig_def insertActive_def)

lemma createUserContainer_success:
  assumes "launchParameters (Config r) = Inr (i, v, m, n)" and "startVM s i v m n = Inr fi"
    and "stockRuntimeClient s r = Inr resp" and "activeInstances s (ContainerId resp) = None"
  shows "createUserContainer s r =
    (Inr resp,
     s\<lparr>podVMConfigs := (podVMConfigs s)(PodSandboxId r \<mapsto>
                \<lparr>guestIP = GuestIP (startVMResponse fi), guestPort = guestPortValue\<rparr>),
       activeInstances := (activeInstances s)(ContainerId resp \<mapsto> fi),
       calls := calls s @ [GoStockCreateContainer r, StartVM i v m n,
                InsertPodVMConfig (PodSandboxId r)
                  \<lparr>guestIP = GuestIP (startVMResponse fi), guestPort = guestPortValue\<rparr>,
                AwaitStockDone, InsertActive (ContainerId resp) fi]\<rparr>)"
  using assms
  by (simp add: launchParameters_Inr createUserContainer_def record_call_def Let_def
      insertPodVMConfig_def insertActive_def)

text \<open>
  The five cases above are all the runs there are: a run that returns a response, or
  that changes the registry, is a run of the last case.
\<close>

lemma createUserContainer_cases:
  obtains (no_params) e where "launchParameters (Config (r :: CreateContainerRequest)) = Inl e"
  | (vm) i v m n e where "launchParameters (Config r) = Inr (i, v, m, n)"
      and "startVM (s :: Service) i v m n = Inl e"
  | (stock) i v m n fi e where "launchParameters (Config r) = Inr (i, v, m, n)"
      and "startVM s i v m n = Inr fi" and "stockRuntimeClient s r = Inl e"
  | (duplicate) i v m n fi resp old where "launchParameters (Config r) = Inr (i, v, m, n)"
      and "startVM s i v m n = Inr fi" and "stockRuntimeClient s r = Inr resp"
      and "activeInstances s (ContainerId resp) = Some old"
  | (success) i v m n fi resp where "launchParameters (Config r) = Inr (i, v, m, n)"
      and "startVM s i v m n = Inr fi" and "stockRuntimeClient s r = Inr resp"
      and "activeInstances s (ContainerId resp) = None"
proof (cases "launchParameters (Config r)")
  case (Inl e)
  then show ?thesis by (rule no_params)
next
  case (Inr p)
  then obtain i v m n where p: "launchParameters (Config r) = Inr (i, v, m, n)"
    by (cases p) auto
  show ?thesis
  proof (cases "startVM s i v m n")
    case (Inl e)
    with p show ?thesis by (rule vm)
  next
    case fi: (Inr fi)
    show ?thesis
    proof (cases "stockRuntimeClient s r")
      case (Inl e)
      with p fi show ?thesis by (rule stock)
    next
      case resp: (Inr resp)
      show ?thesis
      proof (cases "activeInstances s (ContainerId resp)")
        case None
        with p fi resp show ?thesis by (rule success)
      next
        case (Some old)
        with p fi resp show ?thesis by (rule duplicate)
      qed
    qed
  qed
qed

lemma createUserContainer_registry_changed:
  assumes "activeInstances (snd (createUserContainer s r)) \<noteq> activeInstances s"
  shows "\<exists>i v m n fi resp.
           launchParameters (Config r) = Inr (i, v, m, n) \<and> startVM s i v m n = Inr fi \<and>
           stockRuntimeClient s r = Inr resp \<and> fst (createUserContainer s r) = Inr resp \<and>
           activeInstances (snd (createUserContainer s r)) =
             (activeInstances s)(ContainerId resp \<mapsto> fi)"
proof (cases rule: createUserContainer_cases [where r = r and s = s])
  case (no_params e)
  with assms show ?thesis by (simp add: createUserContainer_extract_fails)
next
  case (vm i v m n e)
  with assms show ?thesis by (simp add: createUserContainer_vm_fails)
next
  case (stock i v m n fi e)
  with assms show ?thesis by (simp add: createUserContainer_stock_fails)
next
  case (duplicate i v m n fi resp old)
  with assms show ?thesis by (simp add: createUserContainer_duplicate)
next
  case (success i v m n fi resp)
  then show ?thesis by (simp add: createUserContainer_success)
qed

lemma createUserContainer_returns_response:
  assumes "createUserContainer s r = (Inr resp, s1)"
  shows "\<exists>i v m n fi.
           launchParameters (Config r) = Inr (i, v, m, n) \<and> startVM s i v m n = Inr fi \<and>
           stockRuntimeClient s r = Inr resp \<and> activeInstances s (ContainerId resp) = None"
proof (cases rule: createUserContainer_cases [where r = r and s = s])
  case (no_params e)
  with assms show ?thesis by (simp add: createUserContainer_extract_fails)
next
  case (vm i v m n e)
  with assms show ?thesis by (simp add: createUserContainer_vm_fails)
next
  case (stock i v m n fi e)
  with assms show ?thesis by (simp add: createUserContainer_stock_fails)
next
  case (duplicate i v m n fi resp' old)
  with assms show ?thesis by (simp add: createUserContainer_duplicate)
next
  case (success i v m n fi resp')
  with assms show ?thesis by (auto simp: createUserContainer_success)
qed

subsection \<open>The runs of the sidecar path\<close>

lemma createQueueProxy_absent:
  assumes "podVMConfigs s (PodSandboxId r) = None"
  shows "createQueueProxy s r =
    (Inl errNoVMConfig, s\<lparr>calls := calls s @ [GetPodVMConfig (PodSandboxId r)]\<rparr>)"
  using assms
  by (simp add: createQueueProxy_def record_call_def Let_def getPodVMConfig_def)

lemma createQueueProxy_present:
  assumes "podVMConfigs s (PodSandboxId r) = Some vmConfig"
  shows "createQueueProxy s r =
    (stockRuntimeClient s (forwarded r vmConfig),
     s\<lparr>podVMConfigs := (podVMConfigs s)(PodSandboxId r := None),
       calls := calls s @ [GetPodVMConfig (PodSandboxId r), RemovePodVMConfig (PodSandboxId r),
                StockCreateContainer (forwarded r vmConfig)]\<rparr>)"
  using assms
  by (auto simp: createQueueProxy_def record_call_def Let_def getPodVMConfig_def
      removePodVMConfig_def forwarded_def split: sum.splits)

subsection \<open>The log of calls, and the sample inputs\<close>

lemma new_calls_calls [simp]: "new_calls s (s'\<lparr>calls := calls s @ cs\<rparr>) = cs"
  by (simp add: new_calls_def)

lemma new_calls_store [simp]: "new_calls s (s\<lparr>podVMConfigs := p, calls := calls s @ cs\<rparr>) = cs"
  by (simp add: new_calls_def)

lemma new_calls_stores [simp]:
  "new_calls s (s\<lparr>podVMConfigs := p, activeInstances := a, calls := calls s @ cs\<rparr>) = cs"
  by (simp add: new_calls_def)

lemmas sample_defs =
  request_named_def sample_envs_def fresh_service_def stock_ok_def stock_fail_def vm_ok_def
  vm_fail_def sample_vm_def sample_vmConfig_def registered_service_def published_service_def

lemmas const_defs =
  userContainerName_def queueProxyName_def revisionEnv_def guestIPEnv_def guestPortEnv_def
  guestImageEnv_def guestMemorySizeMibEnv_def defaultMemorySizeMib_def guestvCPUCount_def
  defaultvCPUCount_def guestPortValue_def

lemmas extract_defs =
  launchParameters_def getGuestImage_def getRevisionId_def getMemorySize_def getvCPUCount_def
  uint32_def

lemmas atoi_defs = Atoi_def ParseInt_def ParseUint_def is_digit_def digit_val_def maxUint64_def

lemma sample_name: "Name (Metadata (Config (request_named nm envs))) = nm"
  by (simp add: request_named_def)

lemma sample_pod: "PodSandboxId (request_named nm envs) = ''pod-1''"
  by (simp add: request_named_def)

lemma sample_params:
  "launchParameters (Config (request_named nm sample_envs)) = Inr (''fn:v1'', ''rev-7'', 256, 1)"
  by (simp add: sample_defs const_defs extract_defs)

lemma empty_params:
  "launchParameters (Config (request_named nm [])) =
     Inl (ErrorString ''failed to provide non empty guest image in user container config'')"
  by (simp add: sample_defs const_defs extract_defs)

subsection \<open>Failed extraction of the launch parameters\<close>

text \<open>
  Claim C1, as the code has it. When the extraction of the launch parameters fails, a
  workload request returns the extraction error and the VM supervisor is never called:
  the only call of the run is the start of the goroutine that asks the stock runtime
  client for the placeholder container, which the function starts before it extracts
  anything and whose result it neither awaits nor uses. Neither store changes.
\<close>

theorem extraction_failure_skips_vm_boot:
  assumes "Name (Metadata (Config r)) = userContainerName"
    and "launchParameters (Config r) = Inl e"
  shows "CreateContainer s r = (Inl e, s\<lparr>calls := calls s @ [GoStockCreateContainer r]\<rparr>)"
  using assms by (simp add: CreateContainer_user createUserContainer_extract_fails)

theorem extraction_failure_skips_vm_boot_witness:
  "CreateContainer (fresh_service stock_ok vm_ok) (request_named userContainerName []) =
     (Inl (ErrorString ''failed to provide non empty guest image in user container config''),
      (fresh_service stock_ok vm_ok)
        \<lparr>calls := [GoStockCreateContainer (request_named userContainerName [])]\<rparr>)"
  using extraction_failure_skips_vm_boot
    [OF sample_name empty_params, where s = "fresh_service stock_ok vm_ok"]
  by (simp add: fresh_service_def)

text \<open>
  Claim C1 as stated fails: for a workload request with no environment entry at all the
  extraction fails, and yet the creation of the placeholder container has been started.
\<close>

theorem extraction_failure_still_starts_placeholder:
  "fst (CreateContainer (fresh_service stock_ok vm_ok) (request_named userContainerName [])) =
     Inl (ErrorString ''failed to provide non empty guest image in user container config'') \<and>
   calls (snd (CreateContainer (fresh_service stock_ok vm_ok)
     (request_named userContainerName []))) =
     [GoStockCreateContainer (request_named userContainerName [])]"
  by (simp add: CreateContainer_def createUserContainer_def Let_def record_call_def
      request_named_def fresh_service_def extract_defs)

subsection \<open>A failed VM boot\<close>

text \<open>
  Claim C4. When the VM boot fails, the workload path returns the error of the boot
  right after the call of the supervisor: the run ends before the receive on the channel
  of the placeholder goroutine, and whatever the stock runtime client would answer, the
  result is the error of the boot.
\<close>

theorem vm_boot_failure_returns_before_join:
  assumes "Name (Metadata (Config r)) = userContainerName"
    and "launchParameters (Config r) = Inr (i, v, m, n)"
    and "startVM s i v m n = Inl e"
  shows "CreateContainer s r =
           (Inl e, s\<lparr>calls := calls s @ [GoStockCreateContainer r, StartVM i v m n]\<rparr>) \<and>
         AwaitStockDone \<notin> set (new_calls s (snd (CreateContainer s r))) \<and>
         (\<forall>stock. fst (CreateContainer (s\<lparr>stockRuntimeClient := stock\<rparr>) r) = Inl e)"
proof -
  have run: "CreateContainer s' r =
      (Inl e, s'\<lparr>calls := calls s' @ [GoStockCreateContainer r, StartVM i v m n]\<rparr>)"
    if "startVM s' = startVM s" for s'
    using assms that by (simp add: CreateContainer_user createUserContainer_vm_fails)
  have "CreateContainer s r =
      (Inl e, s\<lparr>calls := calls s @ [GoStockCreateContainer r, StartVM i v m n]\<rparr>)"
    by (rule run) simp
  moreover from this have "AwaitStockDone \<notin> set (new_calls s (snd (CreateContainer s r)))"
    by simp
  moreover have "fst (CreateContainer (s\<lparr>stockRuntimeClient := stock\<rparr>) r) = Inl e" for stock
    by (simp add: run)
  ultimately show ?thesis by blast
qed

theorem vm_boot_failure_returns_before_join_witness:
  "CreateContainer (fresh_service stock_ok vm_fail) (request_named userContainerName sample_envs) =
     (Inl (ErrorString ''VM boot failed''),
      (fresh_service stock_ok vm_fail)
        \<lparr>calls := [GoStockCreateContainer (request_named userContainerName sample_envs),
                   StartVM ''fn:v1'' ''rev-7'' 256 1]\<rparr>) \<and>
   fst (CreateContainer (fresh_service stock_fail vm_fail)
     (request_named userContainerName sample_envs)) = Inl (ErrorString ''VM boot failed'')"
proof -
  have vm: "startVM (fresh_service stock_ok vm_fail) ''fn:v1'' ''rev-7'' 256 1 =
      Inl (ErrorString ''VM boot failed'')"
    by (simp add: fresh_service_def vm_fail_def)
  have "(fresh_service stock_ok vm_fail)\<lparr>stockRuntimeClient := stock_fail\<rparr> =
      fresh_service stock_fail vm_fail"
    by (simp add: fresh_service_def)
  with vm_boot_failure_returns_before_join [OF sample_name sample_params vm] show ?thesis
    by (simp add: fresh_service_def)
qed

subsection \<open>Publishing the VM configuration\<close>

text \<open>
  Claim C5. After a successful VM boot the next step of the workload path stores the
  record made of the guest address of the VM and the fixed port 50051 under the pod
  sandbox identifier of the request, and only then waits for the placeholder goroutine:
  the first four calls of the run are the start of the goroutine, the boot, the publish
  and the wait, in this order, and the store holds the record when the run ends.
\<close>

theorem config_published_before_join:
  assumes "Name (Metadata (Config r)) = userContainerName"
    and "launchParameters (Config r) = Inr (i, v, m, n)"
    and "startVM s i v m n = Inr fi"
  shows "take 4 (new_calls s (snd (CreateContainer s r))) =
           [GoStockCreateContainer r, StartVM i v m n,
            InsertPodVMConfig (PodSandboxId r)
              \<lparr>guestIP = GuestIP (startVMResponse fi), guestPort = ''50051''\<rparr>,
            AwaitStockDone] \<and>
         podVMConfigs (snd (CreateContainer s r)) (PodSandboxId r) =
           Some \<lparr>guestIP = GuestIP (startVMResponse fi), guestPort = ''50051''\<rparr>"
proof (cases "stockRuntimeClient s r")
  case (Inl e)
  with assms show ?thesis
    by (simp add: CreateContainer_user createUserContainer_stock_fails guestPortValue_def)
next
  case (Inr resp)
  show ?thesis
  proof (cases "activeInstances s (ContainerId resp)")
    case None
    with Inr assms show ?thesis
      by (simp add: CreateContainer_user createUserContainer_success guestPortValue_def)
  next
    case (Some old)
    with Inr assms show ?thesis
      by (simp add: CreateContainer_user createUserContainer_duplicate guestPortValue_def)
  qed
qed

theorem config_published_before_join_witness:
  "take 4 (new_calls (fresh_service stock_fail vm_ok)
     (snd (CreateContainer (fresh_service stock_fail vm_ok)
        (request_named userContainerName sample_envs)))) =
     [GoStockCreateContainer (request_named userContainerName sample_envs),
      StartVM ''fn:v1'' ''rev-7'' 256 1,
      InsertPodVMConfig ''pod-1'' sample_vmConfig,
      AwaitStockDone] \<and>
   podVMConfigs (snd (CreateContainer (fresh_service stock_fail vm_ok)
     (request_named userContainerName sample_envs))) ''pod-1'' = Some sample_vmConfig"
proof -
  have vm: "startVM (fresh_service stock_fail vm_ok) ''fn:v1'' ''rev-7'' 256 1 = Inr sample_vm"
    by (simp add: fresh_service_def vm_ok_def sample_vm_def)
  from config_published_before_join [OF sample_name sample_params vm] show ?thesis
    by (simp add: sample_pod sample_vm_def sample_vmConfig_def)
qed

subsection \<open>Registering the VM\<close>

text \<open>
  Claim C6. When the VM boot and the creation of the placeholder container both succeed,
  the workload path inserts the container identifier of the response together with the
  VM instance into the Active VM Registry. If the identifier is already registered, the
  request returns the duplicate-key error and the registry stays as it was; otherwise
  the request returns the response of the stock runtime client unchanged and the
  registry maps the identifier to the instance.
\<close>

theorem both_succeed_registers_pair:
  assumes "Name (Metadata (Config r)) = userContainerName"
    and "launchParameters (Config r) = Inr (i, v, m, n)"
    and "startVM s i v m n = Inr fi"
    and "stockRuntimeClient s r = Inr resp"
  shows "InsertActive (ContainerId resp) fi \<in> set (new_calls s (snd (CreateContainer s r))) \<and>
         (if ContainerId resp \<in> dom (activeInstances s)
          then fst (CreateContainer s r) = Inl errDuplicateActive \<and>
               activeInstances (snd (CreateContainer s r)) = activeInstances s
          else fst (CreateContainer s r) = Inr resp \<and>
               activeInstances (snd (CreateContainer s r)) =
                 (activeInstances s)(ContainerId resp \<mapsto> fi))"
proof (cases "activeInstances s (ContainerId resp)")
  case None
  with assms show ?thesis
    by (simp add: CreateContainer_user createUserContainer_success domIff)
next
  case (Some old)
  with assms show ?thesis
    by (simp add: CreateContainer_user createUserContainer_duplicate domIff)
qed

theorem both_succeed_registers_pair_witness:
  "fst (CreateContainer (fresh_service stock_ok vm_ok)
     (request_named userContainerName sample_envs)) = Inr \<lparr>ContainerId = ''ctr-pod-1''\<rparr> \<and>
   activeInstances (snd (CreateContainer (fresh_service stock_ok vm_ok)
     (request_named userContainerName sample_envs))) = [''ctr-pod-1'' \<mapsto> sample_vm] \<and>
   fst (CreateContainer registered_service (request_named userContainerName sample_envs)) =
     Inl errDuplicateActive \<and>
   activeInstances (snd (CreateContainer registered_service
     (request_named userContainerName sample_envs))) = [''ctr-pod-1'' \<mapsto> sample_vm]"
proof -
  have vm: "startVM (fresh_service stock_ok vm_ok) ''fn:v1'' ''rev-7'' 256 1 = Inr sample_vm"
    by (simp add: fresh_service_def vm_ok_def sample_vm_def)
  have stock: "stockRuntimeClient (fresh_service stock_ok vm_ok)
      (request_named userContainerName sample_envs) = Inr \<lparr>ContainerId = ''ctr-pod-1''\<rparr>"
    by (simp add: fresh_service_def stock_ok_def request_named_def)
  have vm': "startVM registered_service ''fn:v1'' ''rev-7'' 256 1 = Inr sample_vm"
    by (simp add: registered_service_def fresh_service_def vm_ok_def sample_vm_def)
  have stock': "stockRuntimeClient registered_service
      (request_named userContainerName sample_envs) = Inr \<lparr>ContainerId = ''ctr-pod-1''\<rparr>"
    by (simp add: registered_service_def fresh_service_def stock_ok_def request_named_def)
  from both_succeed_registers_pair [OF sample_name sample_params vm stock]
    both_succeed_registers_pair [OF sample_name sample_params vm' stock']
  show ?thesis
    by (simp add: registered_service_def fresh_service_def)
qed

subsection \<open>A sidecar request without a published configuration\<close>

text \<open>
  Claim C8. A sidecar request whose pod sandbox identifier has no entry in the Pod VM
  Config Store returns the error of the missing VM configuration after the single lookup:
  the run makes no call to the stock runtime client and no second lookup, and leaves
  both stores as they were.
\<close>

theorem sidecar_without_config_fails:
  assumes "Name (Metadata (Config r)) = queueProxyName"
    and "podVMConfigs s (PodSandboxId r) = None"
  shows "CreateContainer s r =
           (Inl errNoVMConfig, s\<lparr>calls := calls s @ [GetPodVMConfig (PodSandboxId r)]\<rparr>)"
  using assms by (simp add: CreateContainer_queue createQueueProxy_absent)

theorem sidecar_without_config_fails_witness:
  "CreateContainer (fresh_service stock_ok vm_ok) (request_named queueProxyName []) =
     (Inl (ErrorString ''no VM configuration available''),
      (fresh_service stock_ok vm_ok)\<lparr>calls := [GetPodVMConfig ''pod-1'']\<rparr>)"
proof -
  have absent: "podVMConfigs (fresh_service stock_ok vm_ok)
      (PodSandboxId (request_named queueProxyName [])) = None"
    by (simp add: fresh_service_def)
  from sidecar_without_config_fails [OF sample_name absent] show ?thesis
    by (simp add: fresh_service_def sample_pod errNoVMConfig_def)
qed

subsection \<open>The registry after a failure\<close>

text \<open>
  Claim C2. For a workload request the Active VM Registry gains no entry when the VM
  boot or the creation of the placeholder container fails. When the boot fails, the
  request returns the error of the boot and the registry is unchanged, whatever the
  stock runtime client answers. When the boot succeeds and the creation of the
  placeholder fails, the request returns the error of the creation and the registry is
  unchanged. A run that changes the registry is one in which both succeeded, and it
  adds the pair of the container identifier and the VM instance.
\<close>

theorem registry_gains_entry_only_when_both_succeed:
  assumes "Name (Metadata (Config r)) = userContainerName"
  shows "(launchParameters (Config r) = Inr (i, v, m, n) \<and> startVM s i v m n = Inl e \<longrightarrow>
            (\<forall>stock.
               fst (CreateContainer (s\<lparr>stockRuntimeClient := stock\<rparr>) r) = Inl e \<and>
               activeInstances (snd (CreateContainer (s\<lparr>stockRuntimeClient := stock\<rparr>) r)) =
                 activeInstances s)) \<and>
         (launchParameters (Config r) = Inr (i, v, m, n) \<and> startVM s i v m n = Inr fi \<and>
          stockRuntimeClient s r = Inl e' \<longrightarrow>
            fst (CreateContainer s r) = Inl e' \<and>
            activeInstances (snd (CreateContainer s r)) = activeInstances s) \<and>
         (activeInstances (snd (CreateContainer s r)) \<noteq> activeInstances s \<longrightarrow>
            (\<exists>i v m n fi resp.
               launchParameters (Config r) = Inr (i, v, m, n) \<and> startVM s i v m n = Inr fi \<and>
               stockRuntimeClient s r = Inr resp \<and> fst (CreateContainer s r) = Inr resp \<and>
               activeInstances (snd (CreateContainer s r)) =
                 (activeInstances s)(ContainerId resp \<mapsto> fi)))"
proof (intro conjI impI allI)
  fix stock
  assume "launchParameters (Config r) = Inr (i, v, m, n) \<and> startVM s i v m n = Inl e"
  then have run: "createUserContainer (s\<lparr>stockRuntimeClient := stock\<rparr>) r =
      (Inl e, s\<lparr>stockRuntimeClient := stock,
        calls := calls s @ [GoStockCreateContainer r, StartVM i v m n]\<rparr>)"
    by (simp add: createUserContainer_vm_fails)
  from run assms show "fst (CreateContainer (s\<lparr>stockRuntimeClient := stock\<rparr>) r) = Inl e"
    by (simp add: CreateContainer_user)
  from run assms
  show "activeInstances (snd (CreateContainer (s\<lparr>stockRuntimeClient := stock\<rparr>) r)) =
      activeInstances s"
    by (simp add: CreateContainer_user)
next
  assume a: "launchParameters (Config r) = Inr (i, v, m, n) \<and> startVM s i v m n = Inr fi \<and>
      stockRuntimeClient s r = Inl e'"
  with assms show "fst (CreateContainer s r) = Inl e'"
    by (simp add: CreateContainer_user createUserContainer_stock_fails)
  from a assms show "activeInstances (snd (CreateContainer s r)) = activeInstances s"
    by (simp add: CreateContainer_user createUserContainer_stock_fails)
next
  assume "activeInstances (snd (CreateContainer s r)) \<noteq> activeInstances s"
  with assms have "activeInstances (snd (createUserContainer s r)) \<noteq> activeInstances s"
    by (simp add: CreateContainer_user)
  from createUserContainer_registry_changed [OF this] assms
  show "\<exists>i v m n fi resp.
      launchParameters (Config r) = Inr (i, v, m, n) \<and> startVM s i v m n = Inr fi \<and>
      stockRuntimeClient s r = Inr resp \<and> fst (CreateContainer s r) = Inr resp \<and>
      activeInstances (snd (CreateContainer s r)) = (activeInstances s)(ContainerId resp \<mapsto> fi)"
    by (simp add: CreateContainer_user)
qed

theorem registry_gains_entry_only_when_both_succeed_witness:
  "fst (CreateContainer (fresh_service stock_ok vm_fail)
     (request_named userContainerName sample_envs)) = Inl (ErrorString ''VM boot failed'') \<and>
   activeInstances (snd (CreateContainer (fresh_service stock_ok vm_fail)
     (request_named userContainerName sample_envs))) = Map.empty \<and>
   fst (CreateContainer (fresh_service stock_fail vm_ok)
     (request_named userContainerName sample_envs)) = Inl (ErrorString ''stock runtime failed'') \<and>
   activeInstances (snd (CreateContainer (fresh_service stock_fail vm_ok)
     (request_named userContainerName sample_envs))) = Map.empty \<and>
   activeInstances (snd (CreateContainer (fresh_service stock_ok vm_ok)
     (request_named userContainerName sample_envs))) \<noteq> Map.empty \<and>
   fst (CreateContainer (fresh_service stock_ok vm_ok)
     (request_named userContainerName sample_envs)) = Inr \<lparr>ContainerId = ''ctr-pod-1''\<rparr>"
proof -
  let ?r = "request_named userContainerName sample_envs"
  have boot_fails: "startVM (fresh_service stock_ok vm_fail) ''fn:v1'' ''rev-7'' 256 1 =
      Inl (ErrorString ''VM boot failed'')"
    by (simp add: fresh_service_def vm_fail_def)
  have same: "(fresh_service stock_ok vm_fail)\<lparr>stockRuntimeClient := stock_ok\<rparr> =
      fresh_service stock_ok vm_fail"
    by (simp add: fresh_service_def)
  have boot: "startVM (fresh_service stock_fail vm_ok) ''fn:v1'' ''rev-7'' 256 1 = Inr sample_vm"
    by (simp add: fresh_service_def vm_ok_def sample_vm_def)
  have stock_fails: "stockRuntimeClient (fresh_service stock_fail vm_ok) ?r =
      Inl (ErrorString ''stock runtime failed'')"
    by (simp add: fresh_service_def stock_fail_def)
  have changed: "activeInstances (snd (CreateContainer (fresh_service stock_ok vm_ok) ?r)) \<noteq>
      activeInstances (fresh_service stock_ok vm_ok)"
  proof -
    have "activeInstances (snd (createUserContainer (fresh_service stock_ok vm_ok) ?r))
        ''ctr-pod-1'' = Some sample_vm"
      by (subst createUserContainer_success [OF sample_params, where fi = sample_vm
            and resp = "\<lparr>ContainerId = ''ctr-pod-1''\<rparr>"])
        (simp_all add: fresh_service_def vm_ok_def sample_vm_def stock_ok_def request_named_def)
    then have "activeInstances (snd (CreateContainer (fresh_service stock_ok vm_ok) ?r))
        ''ctr-pod-1'' \<noteq> activeInstances (fresh_service stock_ok vm_ok) ''ctr-pod-1''"
      by (simp add: CreateContainer_user sample_name fresh_service_def)
    then show ?thesis by metis
  qed
  have stock_ok: "stockRuntimeClient (fresh_service stock_ok vm_ok) ?r =
      Inr \<lparr>ContainerId = ''ctr-pod-1''\<rparr>"
    by (simp add: fresh_service_def stock_ok_def request_named_def)
  have name: "Name (Metadata (Config ?r)) = userContainerName"
    by (rule sample_name)
  from registry_gains_entry_only_when_both_succeed
      [OF name, where s = "fresh_service stock_ok vm_fail"
        and i = "''fn:v1''" and v = "''rev-7''" and m = 256 and n = 1
        and e = "ErrorString ''VM boot failed''"]
    sample_params [of userContainerName] boot_fails
  have "\<forall>stock.
      fst (CreateContainer ((fresh_service stock_ok vm_fail)\<lparr>stockRuntimeClient := stock\<rparr>) ?r) =
        Inl (ErrorString ''VM boot failed'') \<and>
      activeInstances (snd (CreateContainer
        ((fresh_service stock_ok vm_fail)\<lparr>stockRuntimeClient := stock\<rparr>) ?r)) =
        activeInstances (fresh_service stock_ok vm_fail)"
    by simp
  from this [THEN spec, of stock_ok]
  have one: "fst (CreateContainer (fresh_service stock_ok vm_fail) ?r) =
        Inl (ErrorString ''VM boot failed'') \<and>
      activeInstances (snd (CreateContainer (fresh_service stock_ok vm_fail) ?r)) = Map.empty"
    by (simp add: same) (simp add: fresh_service_def)
  from registry_gains_entry_only_when_both_succeed
      [OF name, where s = "fresh_service stock_fail vm_ok"
        and i = "''fn:v1''" and v = "''rev-7''" and m = 256 and n = 1 and fi = sample_vm
        and e' = "ErrorString ''stock runtime failed''"]
    sample_params [of userContainerName] boot stock_fails
  have two: "fst (CreateContainer (fresh_service stock_fail vm_ok) ?r) =
        Inl (ErrorString ''stock runtime failed'') \<and>
      activeInstances (snd (CreateContainer (fresh_service stock_fail vm_ok) ?r)) = Map.empty"
    by (simp add: fresh_service_def)
  from registry_gains_entry_only_when_both_succeed
      [OF name, where s = "fresh_service stock_ok vm_ok"] changed stock_ok
  have three: "fst (CreateContainer (fresh_service stock_ok vm_ok) ?r) =
      Inr \<lparr>ContainerId = ''ctr-pod-1''\<rparr>"
    by auto
  from changed have "activeInstances (snd (CreateContainer (fresh_service stock_ok vm_ok) ?r)) \<noteq>
      Map.empty"
    by (simp add: fresh_service_def)
  with one two three show ?thesis by simp
qed

subsection \<open>Numeric launch parameters\<close>

lemma getMemorySize_scan_find:
  "getMemorySize_scan envs =
     (case find (\<lambda>kv. Key kv = guestMemorySizeMibEnv) envs of
        None \<Rightarrow> Inr 256
      | Some kv \<Rightarrow> (case Atoi (Value kv) of Inr memSize \<Rightarrow> Inr (uint32 memSize) | Inl err \<Rightarrow> Inl err))"
  by (induction envs) (simp_all add: uint32_def defaultMemorySizeMib_def)

lemma getvCPUCount_scan_find:
  "getvCPUCount_scan envs =
     (case find (\<lambda>kv. Key kv = guestvCPUCount) envs of
        None \<Rightarrow> Inr 1
      | Some kv \<Rightarrow> (case Atoi (Value kv) of Inr vCPUCount \<Rightarrow> Inr (uint32 vCPUCount) | Inl err \<Rightarrow> Inl err))"
  by (induction envs) (simp_all add: uint32_def defaultvCPUCount_def)

text \<open>
  Claim C3 asks for the value to be parsed exactly as an unsigned integer, with every
  parse failure an error. The two functions parse with \<^verbatim>\<open>strconv.Atoi\<close>, which reads a
  signed \<^verbatim>\<open>int\<close>, and convert the result with \<^verbatim>\<open>uint32(...)\<close> without a range check. The
  text \<^verbatim>\<open>-1\<close> is no unsigned integer (\<^verbatim>\<open>ParseUint\<close> rejects it), and yet the memory size
  and the vCPU count extracted from it are \<open>4294967295\<close>, without an error; the text
  \<^verbatim>\<open>4294967296\<close> gives the memory size \<open>0\<close>.
\<close>

theorem signed_value_wraps_to_uint32:
  "ParseUint ''-1'' = Inl ErrSyntax \<and>
   getMemorySize (Config (request_named userContainerName
     [\<lparr>Key = guestMemorySizeMibEnv, Value = ''-1''\<rparr>])) = Inr 4294967295 \<and>
   getvCPUCount (Config (request_named userContainerName
     [\<lparr>Key = guestvCPUCount, Value = ''-1''\<rparr>])) = Inr 4294967295 \<and>
   getMemorySize (Config (request_named userContainerName
     [\<lparr>Key = guestMemorySizeMibEnv, Value = ''4294967296''\<rparr>])) = Inr 0"
  by (simp add: request_named_def getMemorySize_def getvCPUCount_def atoi_defs uint32_def)

subsection \<open>From the workload request to the sidecar request\<close>

text \<open>
  Claim C7. A workload request that succeeds publishes exactly one entry of the Pod VM
  Config Store, under its pod sandbox identifier: the guest address of the booted VM
  and the port 50051. The next sidecar request for the same pod sandbox identifier
  consumes it: the entry is removed, and the request handed to the stock runtime client
  is the sidecar request with the two entries \<^verbatim>\<open>GUEST_ADDR\<close> and \<^verbatim>\<open>GUEST_PORT\<close> appended to
  its environment; its result is the result of the stock runtime client. A further
  sidecar request for the same pod sandbox identifier fails with the error of the
  missing VM configuration, after the lookup alone.
\<close>

theorem config_roundtrip:
  assumes "Name (Metadata (Config r)) = userContainerName"
    and "CreateContainer s r = (Inr resp, s1)"
    and "Name (Metadata (Config q)) = queueProxyName"
    and "PodSandboxId q = PodSandboxId r"
    and "CreateContainer s1 q = (res2, s2)"
    and "Name (Metadata (Config q')) = queueProxyName"
    and "PodSandboxId q' = PodSandboxId r"
  shows "\<exists>i v m n fi.
      launchParameters (Config r) = Inr (i, v, m, n) \<and> startVM s i v m n = Inr fi \<and>
      (let vmConfig = \<lparr>guestIP = GuestIP (startVMResponse fi), guestPort = ''50051''\<rparr> in
         new_calls s s1 =
           [GoStockCreateContainer r, StartVM i v m n,
            InsertPodVMConfig (PodSandboxId r) vmConfig, AwaitStockDone,
            InsertActive (ContainerId resp) fi] \<and>
         podVMConfigs s1 = (podVMConfigs s)(PodSandboxId r \<mapsto> vmConfig) \<and>
         res2 = stockRuntimeClient s (forwarded q vmConfig) \<and>
         Envs (Config (forwarded q vmConfig)) =
           Envs (Config q) @
             [\<lparr>Key = ''GUEST_ADDR'', Value = GuestIP (startVMResponse fi)\<rparr>,
              \<lparr>Key = ''GUEST_PORT'', Value = ''50051''\<rparr>] \<and>
         new_calls s1 s2 =
           [GetPodVMConfig (PodSandboxId r), RemovePodVMConfig (PodSandboxId r),
            StockCreateContainer (forwarded q vmConfig)] \<and>
         podVMConfigs s2 (PodSandboxId r) = None \<and>
         CreateContainer s2 q' =
           (Inl errNoVMConfig, s2\<lparr>calls := calls s2 @ [GetPodVMConfig (PodSandboxId r)]\<rparr>))"
proof -
  from assms(1,2) have "createUserContainer s r = (Inr resp, s1)"
    by (simp add: CreateContainer_user)
  from createUserContainer_returns_response [OF this]
  obtain i v m n fi where params: "launchParameters (Config r) = Inr (i, v, m, n)"
    and boot: "startVM s i v m n = Inr fi" and stock: "stockRuntimeClient s r = Inr resp"
    and fresh: "activeInstances s (ContainerId resp) = None"
    by blast
  let ?c = "\<lparr>guestIP = GuestIP (startVMResponse fi), guestPort = ''50051''\<rparr>"
  from assms(1,2) have s1: "s1 =
      s\<lparr>podVMConfigs := (podVMConfigs s)(PodSandboxId r \<mapsto> ?c),
        activeInstances := (activeInstances s)(ContainerId resp \<mapsto> fi),
        calls := calls s @ [GoStockCreateContainer r, StartVM i v m n,
          InsertPodVMConfig (PodSandboxId r) ?c, AwaitStockDone,
          InsertActive (ContainerId resp) fi]\<rparr>"
    by (simp add: CreateContainer_user createUserContainer_success [OF params boot stock fresh]
        guestPortValue_def)
  then have published: "podVMConfigs s1 (PodSandboxId q) = Some ?c"
    and client: "stockRuntimeClient s1 = stockRuntimeClient s"
    by (simp_all add: assms(4))
  from assms(3,5) have s2: "res2 = stockRuntimeClient s (forwarded q ?c)"
    "s2 = s1\<lparr>podVMConfigs := (podVMConfigs s1)(PodSandboxId r := None),
       calls := calls s1 @ [GetPodVMConfig (PodSandboxId r), RemovePodVMConfig (PodSandboxId r),
         StockCreateContainer (forwarded q ?c)]\<rparr>"
    by (simp_all add: CreateContainer_queue createQueueProxy_present [OF published] client
        assms(4))
  then have consumed: "podVMConfigs s2 (PodSandboxId q') = None"
    by (simp add: assms(7))
  have again: "CreateContainer s2 q' =
      (Inl errNoVMConfig, s2\<lparr>calls := calls s2 @ [GetPodVMConfig (PodSandboxId r)]\<rparr>)"
    using assms(6) createQueueProxy_absent [OF consumed]
    by (simp add: CreateContainer_queue assms(7))
  have envs: "Envs (Config (forwarded q ?c)) =
      Envs (Config q) @
        [\<lparr>Key = ''GUEST_ADDR'', Value = GuestIP (startVMResponse fi)\<rparr>,
         \<lparr>Key = ''GUEST_PORT'', Value = ''50051''\<rparr>]"
    by (simp add: forwarded_def guestIPEnv_def guestPortEnv_def)
  have calls1: "new_calls s s1 =
      [GoStockCreateContainer r, StartVM i v m n, InsertPodVMConfig (PodSandboxId r) ?c,
       AwaitStockDone, InsertActive (ContainerId resp) fi]"
    by (simp add: s1)
  have store1: "podVMConfigs s1 = (podVMConfigs s)(PodSandboxId r \<mapsto> ?c)"
    by (simp add: s1)
  have calls2: "new_calls s1 s2 =
      [GetPodVMConfig (PodSandboxId r), RemovePodVMConfig (PodSandboxId r),
       StockCreateContainer (forwarded q ?c)]"
    by (simp add: s2(2) new_calls_def)
  have store2: "podVMConfigs s2 (PodSandboxId r) = None"
    using consumed by (simp add: assms(7))
  from params boot calls1 store1 s2(1) envs calls2 store2 again show ?thesis
    unfolding Let_def by blast
qed

theorem config_roundtrip_witness:
  "fst (CreateContainer (fresh_service stock_ok vm_ok)
     (request_named userContainerName sample_envs)) = Inr \<lparr>ContainerId = ''ctr-pod-1''\<rparr> \<and>
   podVMConfigs (snd (CreateContainer (fresh_service stock_ok vm_ok)
     (request_named userContainerName sample_envs))) = [''pod-1'' \<mapsto> sample_vmConfig] \<and>
   fst (CreateContainer (snd (CreateContainer (fresh_service stock_ok vm_ok)
       (request_named userContainerName sample_envs)))
     (request_named queueProxyName [])) = Inr \<lparr>ContainerId = ''ctr-pod-1''\<rparr> \<and>
   fst (CreateContainer
     (snd (CreateContainer (snd (CreateContainer (fresh_service stock_ok vm_ok)
        (request_named userContainerName sample_envs)))
        (request_named queueProxyName [])))
     (request_named queueProxyName [])) = Inl (ErrorString ''no VM configuration available'')"
proof -
  let ?s = "fresh_service stock_ok vm_ok"
  let ?r = "request_named userContainerName sample_envs"
  let ?q = "request_named queueProxyName []"
  let ?s1 = "snd (CreateContainer ?s ?r)"
  let ?res2 = "fst (CreateContainer ?s1 ?q)"
  let ?s2 = "snd (CreateContainer ?s1 ?q)"
  have name: "Name (Metadata (Config ?r)) = userContainerName"
    and qname: "Name (Metadata (Config ?q)) = queueProxyName"
    and pod: "PodSandboxId ?q = PodSandboxId ?r"
    by (simp_all add: request_named_def)
  have first: "CreateContainer ?s ?r = (Inr \<lparr>ContainerId = ''ctr-pod-1''\<rparr>, ?s1)"
  proof -
    have "fst (createUserContainer ?s ?r) = Inr \<lparr>ContainerId = ''ctr-pod-1''\<rparr>"
      by (subst createUserContainer_success [OF sample_params, where fi = sample_vm
            and resp = "\<lparr>ContainerId = ''ctr-pod-1''\<rparr>"])
        (simp_all add: fresh_service_def vm_ok_def sample_vm_def stock_ok_def request_named_def)
    then have "fst (CreateContainer ?s ?r) = Inr \<lparr>ContainerId = ''ctr-pod-1''\<rparr>"
      by (simp add: CreateContainer_user name)
    then show ?thesis by (metis prod.collapse)
  qed
  have second: "CreateContainer ?s1 ?q = (?res2, ?s2)"
    by simp
  have boot: "startVM ?s i v m n = Inr fi \<Longrightarrow> GuestIP (startVMResponse fi) = ''172.16.0.2''"
    for i v m n fi
    by (auto simp: fresh_service_def vm_ok_def)
  have client: "stockRuntimeClient ?s (forwarded ?q c) = Inr \<lparr>ContainerId = ''ctr-pod-1''\<rparr>" for c
    by (simp add: fresh_service_def stock_ok_def forwarded_def request_named_def)
  from config_roundtrip [OF name first qname pod second qname pod]
  obtain i v m n fi where boot': "startVM ?s i v m n = Inr fi"
    and store1: "podVMConfigs ?s1 = (podVMConfigs ?s)(PodSandboxId ?r \<mapsto>
        \<lparr>guestIP = GuestIP (startVMResponse fi), guestPort = ''50051''\<rparr>)"
    and res2: "?res2 = stockRuntimeClient ?s
        (forwarded ?q \<lparr>guestIP = GuestIP (startVMResponse fi), guestPort = ''50051''\<rparr>)"
    and again: "CreateContainer ?s2 ?q =
        (Inl errNoVMConfig, ?s2\<lparr>calls := calls ?s2 @ [GetPodVMConfig (PodSandboxId ?r)]\<rparr>)"
    unfolding Let_def by blast
  from boot' have ip: "GuestIP (startVMResponse fi) = ''172.16.0.2''"
    by (rule boot)
  from first have one: "fst (CreateContainer ?s ?r) = Inr \<lparr>ContainerId = ''ctr-pod-1''\<rparr>"
    by (metis fst_conv)
  from store1 ip have two: "podVMConfigs ?s1 = [''pod-1'' \<mapsto> sample_vmConfig]"
    by (simp add: sample_pod sample_vmConfig_def fresh_service_def)
  from res2 have three: "?res2 = Inr \<lparr>ContainerId = ''ctr-pod-1''\<rparr>"
    by (simp only: client)
  from again have four: "fst (CreateContainer ?s2 ?q) =
      Inl (ErrorString ''no VM configuration available'')"
    by (simp add: errNoVMConfig_def)
  from one two three four show ?thesis
    by (intro conjI)
qed

subsection \<open>A sidecar request whose downstream creation fails\<close>

text \<open>
  Claim C9. On the sidecar path the entry of the Pod VM Config Store is removed before
  the stock runtime client is called. When that call fails, the request returns its
  error and the entry stays removed: nothing of the run puts it back. A repeat of the
  sidecar request for the same pod sandbox identifier then fails with the error of the
  missing VM configuration, after the lookup alone.
\<close>

theorem sidecar_failure_keeps_config_removed:
  assumes "Name (Metadata (Config r)) = queueProxyName"
    and "podVMConfigs s (PodSandboxId r) = Some vmConfig"
    and "stockRuntimeClient s (forwarded r vmConfig) = Inl e"
    and "Name (Metadata (Config q)) = queueProxyName"
    and "PodSandboxId q = PodSandboxId r"
  shows "CreateContainer s r =
           (Inl e,
            s\<lparr>podVMConfigs := (podVMConfigs s)(PodSandboxId r := None),
              calls := calls s @
                [GetPodVMConfig (PodSandboxId r), RemovePodVMConfig (PodSandboxId r),
                 StockCreateContainer (forwarded r vmConfig)]\<rparr>) \<and>
         podVMConfigs (snd (CreateContainer s r)) (PodSandboxId r) = None \<and>
         fst (CreateContainer (snd (CreateContainer s r)) q) = Inl errNoVMConfig \<and>
         new_calls (snd (CreateContainer s r)) (snd (CreateContainer (snd (CreateContainer s r)) q)) =
           [GetPodVMConfig (PodSandboxId r)]"
proof -
  let ?s' = "s\<lparr>podVMConfigs := (podVMConfigs s)(PodSandboxId r := None),
      calls := calls s @
        [GetPodVMConfig (PodSandboxId r), RemovePodVMConfig (PodSandboxId r),
         StockCreateContainer (forwarded r vmConfig)]\<rparr>"
  from assms(1,3) have run: "CreateContainer s r = (Inl e, ?s')"
    by (simp add: CreateContainer_queue createQueueProxy_present [OF assms(2)])
  have "podVMConfigs ?s' (PodSandboxId q) = None"
    by (simp add: assms(5))
  from createQueueProxy_absent [OF this] assms(4)
  have "CreateContainer ?s' q =
      (Inl errNoVMConfig, ?s'\<lparr>calls := calls ?s' @ [GetPodVMConfig (PodSandboxId r)]\<rparr>)"
    by (simp add: CreateContainer_queue assms(5))
  with run show ?thesis
    by (simp add: new_calls_def)
qed

theorem sidecar_failure_keeps_config_removed_witness:
  "CreateContainer (published_service stock_fail) (request_named queueProxyName []) =
     (Inl (ErrorString ''stock runtime failed''),
      (published_service stock_fail)
        \<lparr>podVMConfigs := [''pod-1'' \<mapsto> sample_vmConfig](''pod-1'' := None),
         calls := [GetPodVMConfig ''pod-1'', RemovePodVMConfig ''pod-1'',
           StockCreateContainer
             (forwarded (request_named queueProxyName []) sample_vmConfig)]\<rparr>) \<and>
   fst (CreateContainer
     (snd (CreateContainer (published_service stock_fail) (request_named queueProxyName [])))
     (request_named queueProxyName [])) = Inl (ErrorString ''no VM configuration available'')"
proof -
  let ?q = "request_named queueProxyName []"
  have held: "podVMConfigs (published_service stock_fail) (PodSandboxId ?q) = Some sample_vmConfig"
    by (simp add: published_service_def fresh_service_def request_named_def)
  have fails: "stockRuntimeClient (published_service stock_fail) (forwarded ?q sample_vmConfig) =
      Inl (ErrorString ''stock runtime failed'')"
    by (simp add: published_service_def fresh_service_def stock_fail_def)
  note run = sidecar_failure_keeps_config_removed [OF sample_name held fails sample_name refl]
  from run have one: "CreateContainer (published_service stock_fail) ?q =
      (Inl (ErrorString ''stock runtime failed''),
       (published_service stock_fail)
         \<lparr>podVMConfigs := [''pod-1'' \<mapsto> sample_vmConfig](''pod-1'' := None),
          calls := [GetPodVMConfig ''pod-1'', RemovePodVMConfig ''pod-1'',
            StockCreateContainer (forwarded ?q sample_vmConfig)]\<rparr>)"
    by (simp add: sample_pod published_service_def fresh_service_def)
  from run have "fst (CreateContainer (snd (CreateContainer (published_service stock_fail) ?q)) ?q) =
      Inl errNoVMConfig"
    by blast
  then have two: "fst (CreateContainer (snd (CreateContainer (published_service stock_fail) ?q)) ?q) =
      Inl (ErrorString ''no VM configuration available'')"
    by (simp only: errNoVMConfig_def)
  from one two show ?thesis
    by (intro conjI)
qed

subsection \<open>Empty values of the required entries\<close>

lemma createUserContainer_boots:
  assumes "launchParameters (Config r) = Inr (i, v, m, n)"
  shows "StartVM i v m n \<in> set (new_calls s (snd (createUserContainer s r)))"
proof (cases rule: createUserContainer_cases [where r = r and s = s])
  case (no_params e)
  with assms show ?thesis by simp
next
  case (vm i' v' m' n' e)
  with assms show ?thesis by (simp add: createUserContainer_vm_fails)
next
  case (stock i' v' m' n' fi e)
  with assms show ?thesis by (simp add: createUserContainer_stock_fails)
next
  case (duplicate i' v' m' n' fi resp old)
  with assms show ?thesis by (simp add: createUserContainer_duplicate)
next
  case (success i' v' m' n' fi resp)
  with assms show ?thesis by (simp add: createUserContainer_success)
qed

text \<open>
  Once the four parameters are extracted, the whole run is decided by what the VM
  supervisor answers to exactly these parameters, then by the stock runtime client and
  the registry.
\<close>

lemma createUserContainer_run:
  assumes "launchParameters (Config r) = Inr (i, v, m, n)"
  shows "createUserContainer s r =
    (case startVM s i v m n of
       Inl err \<Rightarrow>
         (Inl err, s\<lparr>calls := calls s @ [GoStockCreateContainer r, StartVM i v m n]\<rparr>)
     | Inr fi \<Rightarrow>
         (case stockRuntimeClient s r of
            Inl stockErr \<Rightarrow>
              (Inl stockErr,
               s\<lparr>podVMConfigs := (podVMConfigs s)(PodSandboxId r \<mapsto>
                     \<lparr>guestIP = GuestIP (startVMResponse fi), guestPort = ''50051''\<rparr>),
                 calls := calls s @ [GoStockCreateContainer r, StartVM i v m n,
                   InsertPodVMConfig (PodSandboxId r)
                     \<lparr>guestIP = GuestIP (startVMResponse fi), guestPort = ''50051''\<rparr>,
                   AwaitStockDone]\<rparr>)
          | Inr resp \<Rightarrow>
              (case activeInstances s (ContainerId resp) of
                 Some old \<Rightarrow>
                   (Inl errDuplicateActive,
                    s\<lparr>podVMConfigs := (podVMConfigs s)(PodSandboxId r \<mapsto>
                          \<lparr>guestIP = GuestIP (startVMResponse fi), guestPort = ''50051''\<rparr>),
                      calls := calls s @ [GoStockCreateContainer r, StartVM i v m n,
                        InsertPodVMConfig (PodSandboxId r)
                          \<lparr>guestIP = GuestIP (startVMResponse fi), guestPort = ''50051''\<rparr>,
                        AwaitStockDone, InsertActive (ContainerId resp) fi]\<rparr>)
               | None \<Rightarrow>
                   (Inr resp,
                    s\<lparr>podVMConfigs := (podVMConfigs s)(PodSandboxId r \<mapsto>
                          \<lparr>guestIP = GuestIP (startVMResponse fi), guestPort = ''50051''\<rparr>),
                      activeInstances := (activeInstances s)(ContainerId resp \<mapsto> fi),
                      calls := calls s @ [GoStockCreateContainer r, StartVM i v m n,
                        InsertPodVMConfig (PodSandboxId r)
                          \<lparr>guestIP = GuestIP (startVMResponse fi), guestPort = ''50051''\<rparr>,
                        AwaitStockDone, InsertActive (ContainerId resp) fi]\<rparr>))))"
proof (cases "startVM s i v m n")
  case (Inl err)
  with assms show ?thesis by (simp add: createUserContainer_vm_fails)
next
  case boot: (Inr fi)
  show ?thesis
  proof (cases "stockRuntimeClient s r")
    case (Inl stockErr)
    with assms boot show ?thesis
      by (simp add: createUserContainer_stock_fails guestPortValue_def)
  next
    case stock: (Inr resp)
    show ?thesis
    proof (cases "activeInstances s (ContainerId resp)")
      case None
      with assms boot stock show ?thesis
        by (simp add: createUserContainer_success guestPortValue_def)
    next
      case (Some old)
      with assms boot stock show ?thesis
        by (simp add: createUserContainer_duplicate guestPortValue_def)
    qed
  qed
qed

text \<open>
  Claim C10. The extraction of the image reference fails exactly when no environment
  entry has the key \<^verbatim>\<open>GUEST_IMAGE\<close>, and that of the revision identifier exactly when none
  has the key \<^verbatim>\<open>K_REVISION\<close>; both fail with the same message. When the first entry with
  the key has the empty string as its value, the extraction returns the empty string
  without an error. A workload request whose extracted image reference or revision
  identifier is empty goes on to boot the VM with that empty value: the VM supervisor is
  called with the extracted parameters, the empty one among them, and its answer to
  exactly these parameters decides the run. If it fails, the request returns its error
  right after the call; if it returns an instance, the guest address of that instance
  is published under the pod sandbox identifier, and the request ends as the stock
  runtime client and the registry decide, registering that instance on success.
\<close>

theorem empty_value_is_accepted:
  "(getGuestImage c = Inl e \<longleftrightarrow>
      guestImageEnv \<notin> Key ` set (Envs c) \<and>
      e = ErrorString ''failed to provide non empty guest image in user container config'') \<and>
   (getRevisionId c = Inl e \<longleftrightarrow>
      revisionEnv \<notin> Key ` set (Envs c) \<and>
      e = ErrorString ''failed to provide non empty guest image in user container config'') \<and>
   (find (\<lambda>kv. Key kv = guestImageEnv) (Envs c) = Some kv \<and> Value kv = '''' \<longrightarrow>
      getGuestImage c = Inr '''') \<and>
   (find (\<lambda>kv. Key kv = revisionEnv) (Envs c) = Some kv \<and> Value kv = '''' \<longrightarrow>
      getRevisionId c = Inr '''') \<and>
   (Name (Metadata (Config r)) = userContainerName \<and>
    launchParameters (Config r) = Inr ('''', v, m, n) \<longrightarrow>
      StartVM '''' v m n \<in> set (new_calls s (snd (CreateContainer s r)))) \<and>
   (Name (Metadata (Config r)) = userContainerName \<and>
    launchParameters (Config r) = Inr (i, '''', m, n) \<longrightarrow>
      StartVM i '''' m n \<in> set (new_calls s (snd (CreateContainer s r)))) \<and>
   (Name (Metadata (Config r)) = userContainerName \<and>
    launchParameters (Config r) = Inr (i', v', m, n) \<and> (i' = '''' \<or> v' = '''') \<longrightarrow>
      CreateContainer s r =
        (case startVM s i' v' m n of
           Inl err \<Rightarrow>
             (Inl err, s\<lparr>calls := calls s @ [GoStockCreateContainer r, StartVM i' v' m n]\<rparr>)
         | Inr fi \<Rightarrow>
             (case stockRuntimeClient s r of
                Inl stockErr \<Rightarrow>
                  (Inl stockErr,
                   s\<lparr>podVMConfigs := (podVMConfigs s)(PodSandboxId r \<mapsto>
                         \<lparr>guestIP = GuestIP (startVMResponse fi), guestPort = ''50051''\<rparr>),
                     calls := calls s @ [GoStockCreateContainer r, StartVM i' v' m n,
                       InsertPodVMConfig (PodSandboxId r)
                         \<lparr>guestIP = GuestIP (startVMResponse fi), guestPort = ''50051''\<rparr>,
                       AwaitStockDone]\<rparr>)
              | Inr resp \<Rightarrow>
                  (case activeInstances s (ContainerId resp) of
                     Some old \<Rightarrow>
                       (Inl errDuplicateActive,
                        s\<lparr>podVMConfigs := (podVMConfigs s)(PodSandboxId r \<mapsto>
                              \<lparr>guestIP = GuestIP (startVMResponse fi), guestPort = ''50051''\<rparr>),
                          calls := calls s @ [GoStockCreateContainer r, StartVM i' v' m n,
                            InsertPodVMConfig (PodSandboxId r)
                              \<lparr>guestIP = GuestIP (startVMResponse fi), guestPort = ''50051''\<rparr>,
                            AwaitStockDone, InsertActive (ContainerId resp) fi]\<rparr>)
                   | None \<Rightarrow>
                       (Inr resp,
                        s\<lparr>podVMConfigs := (podVMConfigs s)(PodSandboxId r \<mapsto>
                              \<lparr>guestIP = GuestIP (startVMResponse fi), guestPort = ''50051''\<rparr>),
                          activeInstances := (activeInstances s)(ContainerId resp \<mapsto> fi),
                          calls := calls s @ [GoStockCreateContainer r, StartVM i' v' m n,
                            InsertPodVMConfig (PodSandboxId r)
                              \<lparr>guestIP = GuestIP (startVMResponse fi), guestPort = ''50051''\<rparr>,
                            AwaitStockDone, InsertActive (ContainerId resp) fi]\<rparr>)))))"
proof (intro conjI impI)
  show "getGuestImage c = Inl e \<longleftrightarrow>
      guestImageEnv \<notin> Key ` set (Envs c) \<and>
      e = ErrorString ''failed to provide non empty guest image in user container config''"
    by (rule getGuestImage_Inl)
  show "getRevisionId c = Inl e \<longleftrightarrow>
      revisionEnv \<notin> Key ` set (Envs c) \<and>
      e = ErrorString ''failed to provide non empty guest image in user container config''"
    by (rule getRevisionId_Inl)
next
  assume "find (\<lambda>kv. Key kv = guestImageEnv) (Envs c) = Some kv \<and> Value kv = ''''"
  then show "getGuestImage c = Inr ''''"
    by (simp add: getGuestImage_def getGuestImage_scan_find)
next
  assume "find (\<lambda>kv. Key kv = revisionEnv) (Envs c) = Some kv \<and> Value kv = ''''"
  then show "getRevisionId c = Inr ''''"
    by (simp add: getRevisionId_def getRevisionId_scan_find)
next
  assume "Name (Metadata (Config r)) = userContainerName \<and>
      launchParameters (Config r) = Inr ('''', v, m, n)"
  then show "StartVM '''' v m n \<in> set (new_calls s (snd (CreateContainer s r)))"
    by (simp add: CreateContainer_user createUserContainer_boots)
next
  assume "Name (Metadata (Config r)) = userContainerName \<and>
      launchParameters (Config r) = Inr (i, '''', m, n)"
  then show "StartVM i '''' m n \<in> set (new_calls s (snd (CreateContainer s r)))"
    by (simp add: CreateContainer_user createUserContainer_boots)
next
  assume "Name (Metadata (Config r)) = userContainerName \<and>
      launchParameters (Config r) = Inr (i', v', m, n) \<and> (i' = '''' \<or> v' = '''')"
  then have user: "CreateContainer s r = createUserContainer s r"
    and params: "launchParameters (Config r) = Inr (i', v', m, n)"
    by (simp_all add: CreateContainer_user)
  show "CreateContainer s r =
        (case startVM s i' v' m n of
           Inl err \<Rightarrow>
             (Inl err, s\<lparr>calls := calls s @ [GoStockCreateContainer r, StartVM i' v' m n]\<rparr>)
         | Inr fi \<Rightarrow>
             (case stockRuntimeClient s r of
                Inl stockErr \<Rightarrow>
                  (Inl stockErr,
                   s\<lparr>podVMConfigs := (podVMConfigs s)(PodSandboxId r \<mapsto>
                         \<lparr>guestIP = GuestIP (startVMResponse fi), guestPort = ''50051''\<rparr>),
                     calls := calls s @ [GoStockCreateContainer r, StartVM i' v' m n,
                       InsertPodVMConfig (PodSandboxId r)
                         \<lparr>guestIP = GuestIP (startVMResponse fi), guestPort = ''50051''\<rparr>,
                       AwaitStockDone]\<rparr>)
              | Inr resp \<Rightarrow>
                  (case activeInstances s (ContainerId resp) of
                     Some old \<Rightarrow>
                       (Inl errDuplicateActive,
                        s\<lparr>podVMConfigs := (podVMConfigs s)(PodSandboxId r \<mapsto>
                              \<lparr>guestIP = GuestIP (startVMResponse fi), guestPort = ''50051''\<rparr>),
                          calls := calls s @ [GoStockCreateContainer r, StartVM i' v' m n,
                            InsertPodVMConfig (PodSandboxId r)
                              \<lparr>guestIP = GuestIP (startVMResponse fi), guestPort = ''50051''\<rparr>,
                            AwaitStockDone, InsertActive (ContainerId resp) fi]\<rparr>)
                   | None \<Rightarrow>
                       (Inr resp,
                        s\<lparr>podVMConfigs := (podVMConfigs s)(PodSandboxId r \<mapsto>
                              \<lparr>guestIP = GuestIP (startVMResponse fi), guestPort = ''50051''\<rparr>),
                          activeInstances := (activeInstances s)(ContainerId resp \<mapsto> fi),
                          calls := calls s @ [GoStockCreateContainer r, StartVM i' v' m n,
                            InsertPodVMConfig (PodSandboxId r)
                              \<lparr>guestIP = GuestIP (startVMResponse fi), guestPort = ''50051''\<rparr>,
                            AwaitStockDone, InsertActive (ContainerId resp) fi]\<rparr>))))"
    unfolding user by (rule createUserContainer_run [OF params])
qed

theorem empty_value_is_accepted_witness:
  "getGuestImage (Config (request_named userContainerName empty_image_envs)) = Inr '''' \<and>
   StartVM '''' ''rev-7'' 256 1 \<in>
     set (new_calls (fresh_service stock_ok vm_ok)
       (snd (CreateContainer (fresh_service stock_ok vm_ok)
          (request_named userContainerName empty_image_envs)))) \<and>
   getGuestImage (Config (request_named userContainerName [])) =
     Inl (ErrorString ''failed to provide non empty guest image in user container config'') \<and>
   getRevisionId (Config (request_named userContainerName [])) =
     Inl (ErrorString ''failed to provide non empty guest image in user container config'') \<and>
   CreateContainer (fresh_service stock_ok vm_needs_image)
     (request_named userContainerName empty_image_envs) =
     (Inl (ErrorString ''no guest image''),
      (fresh_service stock_ok vm_needs_image)
        \<lparr>calls := [GoStockCreateContainer (request_named userContainerName empty_image_envs),
                   StartVM '''' ''rev-7'' 256 1]\<rparr>) \<and>
   CreateContainer (fresh_service stock_ok vm_ok)
     (request_named userContainerName empty_image_envs) =
     (Inr \<lparr>ContainerId = ''ctr-pod-1''\<rparr>,
      (fresh_service stock_ok vm_ok)
        \<lparr>podVMConfigs := [''pod-1'' \<mapsto> sample_vmConfig],
         activeInstances := [''ctr-pod-1'' \<mapsto> sample_vm],
         calls := [GoStockCreateContainer (request_named userContainerName empty_image_envs),
                   StartVM '''' ''rev-7'' 256 1,
                   InsertPodVMConfig ''pod-1'' sample_vmConfig,
                   AwaitStockDone,
                   InsertActive ''ctr-pod-1'' sample_vm]\<rparr>)"
proof -
  let ?r = "request_named userContainerName empty_image_envs"
  have found: "find (\<lambda>kv. Key kv = guestImageEnv) (Envs (Config ?r)) =
      Some \<lparr>Key = guestImageEnv, Value = ''''\<rparr>"
    by (simp add: request_named_def empty_image_envs_def)
  have params: "launchParameters (Config ?r) = Inr ('''', ''rev-7'', 256, 1)"
    by (simp add: request_named_def empty_image_envs_def const_defs extract_defs)
  have absent: "guestImageEnv \<notin> Key ` set (Envs (Config (request_named userContainerName [])))"
    "revisionEnv \<notin> Key ` set (Envs (Config (request_named userContainerName [])))"
    by (simp_all add: request_named_def)
  from empty_value_is_accepted [where c = "Config ?r" and r = ?r
      and kv = "\<lparr>Key = guestImageEnv, Value = ''''\<rparr>" and v = "''rev-7''" and m = 256 and n = 1
      and s = "fresh_service stock_ok vm_ok"]
    found params sample_name [of userContainerName empty_image_envs]
  have a: "getGuestImage (Config ?r) = Inr '''' \<and>
      StartVM '''' ''rev-7'' 256 1 \<in>
        set (new_calls (fresh_service stock_ok vm_ok)
          (snd (CreateContainer (fresh_service stock_ok vm_ok) ?r)))"
    by simp
  from empty_value_is_accepted [where c = "Config (request_named userContainerName [])"
      and e = "ErrorString ''failed to provide non empty guest image in user container config''"]
    absent
  have b: "getGuestImage (Config (request_named userContainerName [])) =
        Inl (ErrorString ''failed to provide non empty guest image in user container config'') \<and>
      getRevisionId (Config (request_named userContainerName [])) =
        Inl (ErrorString ''failed to provide non empty guest image in user container config'')"
    by simp
  from empty_value_is_accepted [where r = ?r and i' = "''''" and v' = "''rev-7''"
      and m = 256 and n = 1 and s = "fresh_service stock_ok vm_needs_image"]
    params sample_name [of userContainerName empty_image_envs]
  have c: "CreateContainer (fresh_service stock_ok vm_needs_image) ?r =
      (Inl (ErrorString ''no guest image''),
       (fresh_service stock_ok vm_needs_image)
         \<lparr>calls := [GoStockCreateContainer ?r, StartVM '''' ''rev-7'' 256 1]\<rparr>)"
    by (simp add: fresh_service_def vm_needs_image_def)
  from empty_value_is_accepted [where r = ?r and i' = "''''" and v' = "''rev-7''"
      and m = 256 and n = 1 and s = "fresh_service stock_ok vm_ok"]
    params sample_name [of userContainerName empty_image_envs]
  have d: "CreateContainer (fresh_service stock_ok vm_ok) ?r =
      (Inr \<lparr>ContainerId = ''ctr-pod-1''\<rparr>,
       (fresh_service stock_ok vm_ok)
         \<lparr>podVMConfigs := [''pod-1'' \<mapsto> sample_vmConfig],
          activeInstances := [''ctr-pod-1'' \<mapsto> sample_vm],
          calls := [GoStockCreateContainer ?r, StartVM '''' ''rev-7'' 256 1,
                    InsertPodVMConfig ''pod-1'' sample_vmConfig, AwaitStockDone,
                    InsertActive ''ctr-pod-1'' sample_vm]\<rparr>)"
    by (simp add: fresh_service_def vm_ok_def stock_ok_def sample_pod sample_vm_def
        sample_vmConfig_def)
  from a b c d show ?thesis
    by (intro conjI) simp_all
qed

end
